theory Spec2Isabelle
  imports Complex_Main
begin

section \<open>JavaScript values used by the registrar layer\<close>

text \<open>
  Strings are byte strings (\<open>char list\<close>): a character is one byte, so the length of
  a string is also the length of its UTF-8 encoding, as it is for the ASCII keys, hex
  payloads and host names the code handles. A thrown value is an \<open>exn\<close>: either an
  \<open>Error\<close> object carrying its message, or some value that is not an instance of
  \<open>Error\<close>. A function that may throw returns \<open>exn + 'a\<close>, with \<open>Inl\<close> the throw.
\<close>

datatype exn = Error string | NonError

text \<open>\<open>error instanceof Error ? error.message : fallback\<close>\<close>

fun message_or :: "exn \<Rightarrow> string \<Rightarrow> string" where
  "message_or (Error m) fallback = m"
| "message_or NonError fallback = fallback"

text \<open>\<open>s.split(c)\<close> for a one-character separator: never an empty array.\<close>

fun split_on :: "char \<Rightarrow> string \<Rightarrow> string list" where
  "split_on c [] = [[]]"
| "split_on c (x # xs) =
     (if x = c then [] # split_on c xs
      else (case split_on c xs of
              [] \<Rightarrow> [[x]]
            | p # ps \<Rightarrow> (x # p) # ps))"

text \<open>\<open>parts.join(c)\<close>\<close>

fun join_with :: "char \<Rightarrow> string list \<Rightarrow> string" where
  "join_with c [] = []"
| "join_with c [p] = p"
| "join_with c (p # q # ps) = p @ c # join_with c (q # ps)"

text \<open>\<open>s.startsWith(p)\<close> and \<open>s.includes(p)\<close>\<close>

definition startsWith :: "string \<Rightarrow> string \<Rightarrow> bool" where
  "startsWith s p = (take (length p) s = p)"

fun str_includes :: "string \<Rightarrow> string \<Rightarrow> bool" where
  "str_includes [] p = (p = [])"
| "str_includes (x # xs) p = (startsWith (x # xs) p \<or> str_includes xs p)"

text \<open>Array indexing \<open>xs[i]\<close>: \<open>undefined\<close> (here \<open>None\<close>) out of range.\<close>

definition at_index :: "'a list \<Rightarrow> nat \<Rightarrow> 'a option" where
  "at_index xs i = (if i < length xs then Some (xs ! i) else None)"

text \<open>
  \<open>a || b\<close> on strings that may be \<open>undefined\<close>: the empty string and
  \<open>undefined\<close> are falsy.
\<close>

fun str_or :: "string option \<Rightarrow> string option \<Rightarrow> string option" where
  "str_or (Some a) b = (if a = [] then b else Some a)"
| "str_or None b = b"

text \<open>\<open>n || d\<close> on numbers that may be \<open>undefined\<close>: zero is falsy.\<close>

fun num_or :: "nat option \<Rightarrow> nat \<Rightarrow> nat" where
  "num_or (Some n) d = (if n = 0 then d else n)"
| "num_or None d = d"

text \<open>A string that may be \<open>undefined\<close>, as a template literal renders it.\<close>

fun render :: "string option \<Rightarrow> string" where
  "render (Some s) = s"
| "render None = ''undefined''"

section \<open>Credential codec (encryption.ts)\<close>


definition hex_val :: "char \<Rightarrow> nat option" where
  "hex_val c =
     (let n = (of_char c :: nat)
      in if 48 \<le> n \<and> n \<le> 57 then Some (n - 48)
         else if 97 \<le> n \<and> n \<le> 102 then Some (n - 87)
         else if 65 \<le> n \<and> n \<le> 70 then Some (n - 55)
         else None)"


fun from_hex :: "string \<Rightarrow> string" where
  "from_hex (a # b # rest) =
     (case (hex_val a, hex_val b) of
        (Some x, Some y) \<Rightarrow> char_of (16 * x + y) # from_hex rest
      | _ \<Rightarrow> [])"
| "from_hex _ = []"

text \<open>
  The cipher is Node's \<open>aes-256-gcm\<close>, which is not code of this repository: it is a
  parameter of the codec. \<open>aead_seal key iv text\<close> stands for
  \<open>createCipheriv\<close>, \<open>update\<close>, \<open>final\<close> and \<open>getAuthTag\<close>, and gives the
  ciphertext and the tag; \<open>aead_open key iv tag data\<close> stands for
  \<open>createDecipheriv\<close>, \<open>setAuthTag\<close>, \<open>update\<close> and \<open>final\<close>. Either may throw.
\<close>

record aead =
  aead_seal :: "string \<Rightarrow> string \<Rightarrow> string \<Rightarrow> exn + string \<times> string"
  aead_open :: "string \<Rightarrow> string \<Rightarrow> string \<Rightarrow> string \<Rightarrow> exn + string"


text \<open>\<open>getKey\<close> reads \<open>process.env.ENCRYPTION_KEY\<close>, here the argument.\<close>

definition getKey :: "string option \<Rightarrow> exn + string" where
  "getKey env_key =
     (case env_key of
        None \<Rightarrow> Inl (Error ''ENCRYPTION_KEY must be at least 32 characters'')
      | Some key \<Rightarrow>
          if key = [] \<or> length key < 32
          then Inl (Error ''ENCRYPTION_KEY must be at least 32 characters'')
          else Inr (take 32 key))"


definition decrypt :: "aead \<Rightarrow> string option \<Rightarrow> string \<Rightarrow> exn + string" where
  "decrypt c env_key encryptedData =
     (case getKey env_key of
        Inl e \<Rightarrow> Inl e
      | Inr key \<Rightarrow>
          (case split_on CHR '':'' encryptedData of
             [p0, p1, p2, p3] \<Rightarrow> aead_open c key (from_hex p0) (from_hex p3) (from_hex p2)
           | _ \<Rightarrow> Inl (Error ''Invalid encrypted data format'')))"


text \<open>
  A cipher for the examples: the data is the text with the first key byte added to every
  byte, the tag is the initialization vector; opening checks the tag.
\<close>

definition shift_byte :: "nat \<Rightarrow> char \<Rightarrow> char" where
  "shift_byte k b = char_of ((of_char b + k) mod 256)"

definition toy_cipher :: aead where
  "toy_cipher =
     \<lparr>aead_seal = (\<lambda>key iv text.
        Inr (map (shift_byte (of_char (hd key))) text, iv)),
      aead_open = (\<lambda>key iv tag data.
        if tag = iv then Inr (map (shift_byte (256 - of_char (hd key))) data)
        else Inl (Error ''Unsupported state or unable to authenticate data''))\<rparr>"

definition example_key :: string where
  "example_key = ''0123456789abcdef0123456789abcdef''"



text \<open>What \<open>encrypt\<close> returns for the text \<open>{}\<close> under the example key, vector and salt.\<close>

definition example_payload :: string where
  "example_payload =
     ''30313233343536373839616263646566:'' @
     ''3031323334353637383961626364656630313233343536373839616263646566'' @
     ''3031323334353637383961626364656630313233343536373839616263646566:'' @
     ''abad:30313233343536373839616263646566''"

section \<open>The registrar client contract (types.ts)\<close>

record DNSRecord =
  rtype :: string
  name :: string
  content :: string
  ttl :: "nat option"
  priority :: "nat option"

text \<open>\<open>Partial<DNSRecord>\<close>: every field optional.\<close>

record PartialDNSRecord =
  p_rtype :: "string option"
  p_name :: "string option"
  p_content :: "string option"
  p_ttl :: "nat option"
  p_priority :: "nat option"

record op_result =
  success :: bool
  error :: "string option"

record create_result = op_result +
  recordId :: "string option"

record 'r list_result = op_result +
  records :: "'r list option"

definition ok_result :: op_result where
  "ok_result = \<lparr>success = True, error = None\<rparr>"

definition fail_result :: "string \<Rightarrow> op_result" where
  "fail_result msg = \<lparr>success = False, error = Some msg\<rparr>"

definition created :: "string \<Rightarrow> create_result" where
  "created rid = \<lparr>success = True, error = None, recordId = Some rid\<rparr>"

definition create_failed :: "string \<Rightarrow> create_result" where
  "create_failed msg = \<lparr>success = False, error = Some msg, recordId = None\<rparr>"

definition listed :: "'r list \<Rightarrow> 'r list_result" where
  "listed rs = \<lparr>success = True, error = None, records = Some rs\<rparr>"

definition list_failed :: "string \<Rightarrow> 'r list_result" where
  "list_failed msg = \<lparr>success = False, error = Some msg, records = None\<rparr>"

text \<open>The remediation message both REST clients return when no record matches.\<close>

definition verification_not_found :: string where
  "verification_not_found =
     ''Verification TXT record not found. Please add a TXT record with name '' @
     [CHR 0x22] @ ''_domain-verification'' @ [CHR 0x22] @
     '' and the provided token as content.''"

section \<open>Signed-REST client (route53.ts)\<close>

record Route53Credentials =
  accessKeyId :: string
  secretAccessKey :: string
  hostedZoneId :: string
  region :: "string option"

record ResourceRecord =
  rr_Value :: string

record ResourceRecordSet =
  rs_Name :: string
  rs_Type :: string
  rs_TTL :: nat
  rs_ResourceRecords :: "ResourceRecord list option"

text \<open>The two shapes of \<open>params\<close> the client passes to \<open>makeRequest\<close>.\<close>

datatype r53_params =
  ChangeBatch string string ResourceRecordSet
| ListSets string "string option" "string option" nat

record r53_response =
  ResourceRecordSets :: "ResourceRecordSet list option"

text \<open>
  \<open>makeRequest\<close> reads the region and then throws: the AWS SDK call is commented
  out in the source.
\<close>

definition r53_makeRequest ::
  "Route53Credentials \<Rightarrow> string \<Rightarrow> r53_params \<Rightarrow> exn + r53_response" where
  "r53_makeRequest creds action params =
     (let region' = render (str_or (region creds) (Some ''us-east-1''))
      in Inl (Error (''Route53 integration requires @aws-sdk/client-route-53. '' @
                     ''Please install it: npm install @aws-sdk/client-route-53'')))"

definition r53_createRecord :: "Route53Credentials \<Rightarrow> DNSRecord \<Rightarrow> create_result" where
  "r53_createRecord creds record =
     (let params = ChangeBatch (hostedZoneId creds) ''CREATE''
                     \<lparr>rs_Name = name record, rs_Type = rtype record,
                      rs_TTL = num_or (ttl record) 300,
                      rs_ResourceRecords = Some [\<lparr>rr_Value = content record\<rparr>]\<rparr>
      in case r53_makeRequest creds ''ChangeResourceRecordSets'' params of
           Inl e \<Rightarrow> create_failed (message_or e ''Failed to create DNS record'')
         | Inr response \<Rightarrow> created (name record @ '':'' @ rtype record))"

definition r53_deleteRecord :: "Route53Credentials \<Rightarrow> string \<Rightarrow> op_result" where
  "r53_deleteRecord creds rid =
     (let parts = split_on CHR '':'' rid;
          listParams = ListSets (hostedZoneId creds) (at_index parts 0) (at_index parts 1) 1
      in case r53_makeRequest creds ''ListResourceRecordSets'' listParams of
           Inl e \<Rightarrow> fail_result (message_or e ''Failed to delete DNS record'')
         | Inr currentRecords \<Rightarrow>
             (case ResourceRecordSets currentRecords of
                None \<Rightarrow> fail_result ''Record not found''
              | Some [] \<Rightarrow> fail_result ''Record not found''
              | Some (recordToDelete # _) \<Rightarrow>
                  (case r53_makeRequest creds ''ChangeResourceRecordSets''
                          (ChangeBatch (hostedZoneId creds) ''DELETE'' recordToDelete) of
                     Inl e \<Rightarrow> fail_result (message_or e ''Failed to delete DNS record'')
                   | Inr _ \<Rightarrow> ok_result)))"

definition r53_updateRecord ::
  "Route53Credentials \<Rightarrow> string \<Rightarrow> PartialDNSRecord \<Rightarrow> op_result" where
  "r53_updateRecord creds rid record =
     (let deleteResult = r53_deleteRecord creds rid
      in if \<not> success deleteResult then deleteResult
         else
           (let parts = split_on CHR '':'' rid;
                r = r53_createRecord creds
                      \<lparr>rtype = render (str_or (p_rtype record) (at_index parts 1)),
                       name = render (str_or (p_name record) (at_index parts 0)),
                       content = render (str_or (p_content record) (Some [])),
                       ttl = p_ttl record, priority = p_priority record\<rparr>
            in \<lparr>success = success r, error = error r\<rparr>))"

definition r53_listRecords ::
  "Route53Credentials \<Rightarrow> string option \<Rightarrow> ResourceRecordSet list_result" where
  "r53_listRecords creds kind =
     (case r53_makeRequest creds ''ListResourceRecordSets''
             (ListSets (hostedZoneId creds) None None 100) of
        Inl e \<Rightarrow> list_failed (message_or e ''Failed to list DNS records'')
      | Inr response \<Rightarrow>
          (let records0 = (case ResourceRecordSets response of None \<Rightarrow> [] | Some rs \<Rightarrow> rs);
               records1 = (case str_or kind None of
                             Some t \<Rightarrow> filter (\<lambda>r. rs_Type r = t) records0
                           | None \<Rightarrow> records0)
           in listed records1))"

text \<open>
  The predicate of \<open>find\<close> in \<open>verifyOwnership\<close>: the set's name contains the
  verification host and some value of the set contains the token.
\<close>

definition r53_isVerification :: "string \<Rightarrow> ResourceRecordSet \<Rightarrow> bool" where
  "r53_isVerification token record =
     (str_includes (rs_Name record) ''_domain-verification'' \<and>
      (case rs_ResourceRecords record of
         None \<Rightarrow> False
       | Some rrs \<Rightarrow> list_ex (\<lambda>rr. str_includes (rr_Value rr) token) rrs))"

definition r53_verifyOwnership :: "Route53Credentials \<Rightarrow> string \<Rightarrow> op_result" where
  "r53_verifyOwnership creds token =
     (let result = r53_listRecords creds (Some ''TXT'')
      in case (if success result then records result else None) of
           None \<Rightarrow> fail_result ''Failed to fetch TXT records''
         | Some rs \<Rightarrow>
             (if list_ex (r53_isVerification token) rs then ok_result
              else fail_result verification_not_found))"

section \<open>Token-REST client (cloudflare.ts)\<close>














section \<open>Query-API client (namecheap.ts)\<close>

record NamecheapCredentials =
  apiKey :: string
  apiUser :: string
  username :: string
  clientIp :: string

text \<open>
  The query of a request: the entries of \<open>URLSearchParams\<close>, in order. Spreading
  \<open>extraParams\<close> into the object literal overwrites a key that is already there and
  appends a new one.
\<close>

type_synonym query = "(string \<times> string) list"

fun put_param :: "string \<Rightarrow> string \<Rightarrow> query \<Rightarrow> query" where
  "put_param k v [] = [(k, v)]"
| "put_param k v ((k', v') # ps) =
     (if k' = k then (k, v) # ps else (k', v') # put_param k v ps)"

definition spread :: "query \<Rightarrow> query \<Rightarrow> query" where
  "spread base extra = fold (\<lambda>(k, v). put_param k v) extra base"

text \<open>
  \<open>fetch(url)\<close> followed by \<open>response.text()\<close>: the Namecheap service, a parameter of
  the client. It is given the query, acts on its own state \<open>'z\<close>, and answers with a
  text or throws.
\<close>

type_synonym 'z nc_fetch = "query \<Rightarrow> 'z \<Rightarrow> (exn + string) \<times> 'z"

text \<open>
  \<open>text.match(/<Error[^>]*>([^<]+)<\/Error>/)\<close>: the first group of the leftmost
  match. \<open>error_at\<close> matches at the start of its argument.
\<close>

definition error_at :: "string \<Rightarrow> string option" where
  "error_at s =
     (if startsWith s ''<Error'' then
        (case dropWhile (\<lambda>c. c \<noteq> CHR ''>'') (drop 6 s) of
           [] \<Rightarrow> None
         | gt # body \<Rightarrow>
             (let msg = takeWhile (\<lambda>c. c \<noteq> CHR ''<'') body;
                  rest = dropWhile (\<lambda>c. c \<noteq> CHR ''<'') body
              in if msg \<noteq> [] \<and> startsWith rest ''</Error>'' then Some msg else None))
      else None)"

fun errorMatch :: "string \<Rightarrow> string option" where
  "errorMatch [] = None"
| "errorMatch (c # cs) =
     (case error_at (c # cs) of
        Some msg \<Rightarrow> Some msg
      | None \<Rightarrow> errorMatch cs)"

text \<open>The text \<open>Status="ERROR"\<close>, with its double quotes.\<close>

definition status_error :: string where
  "status_error = ''Status='' @ [CHR 0x22] @ ''ERROR'' @ [CHR 0x22]"

definition nc_makeRequest ::
  "'z nc_fetch \<Rightarrow> NamecheapCredentials \<Rightarrow> string \<Rightarrow> query \<Rightarrow> 'z \<Rightarrow> (exn + string) \<times> 'z" where
  "nc_makeRequest fetch creds command extraParams z =
     (let params = spread [(''ApiUser'', apiUser creds), (''ApiKey'', apiKey creds),
                           (''UserName'', username creds), (''ClientIp'', clientIp creds),
                           (''Command'', command)] extraParams;
          (answer, z') = fetch params z
      in case answer of
           Inl e \<Rightarrow> (Inl e, z')
         | Inr text \<Rightarrow>
             if str_includes text status_error
             then (Inl (Error (case errorMatch text of
                                 Some msg \<Rightarrow> msg
                               | None \<Rightarrow> ''Namecheap API request failed'')), z')
             else (Inr text, z'))"

text \<open>\<open>n.toString()\<close> for a natural number.\<close>

function show_nat :: "nat \<Rightarrow> string" where
  "show_nat n =
     (if n < 10 then [char_of (48 + n)]
      else show_nat (n div 10) @ [char_of (48 + n mod 10)])"
  by pat_completeness auto
termination
  by (relation "measure id") auto

declare show_nat.simps [simp del]

text \<open>
  \<open>createRecord\<close>: the name is split at the dots; the last two parts are the SLD and
  the TLD, what comes before them is the host (\<open>@\<close> when there is nothing). The
  answer of \<open>getHosts\<close> is bound to \<open>getHostsResponse\<close> and not read again.
\<close>

definition nc_createRecord ::
  "'z nc_fetch \<Rightarrow> NamecheapCredentials \<Rightarrow> DNSRecord \<Rightarrow> 'z \<Rightarrow> create_result \<times> 'z" where
  "nc_createRecord fetch creds record z =
     (let domainParts = split_on CHR ''.'' (name record);
          n = length domainParts;
          sld = render (if 2 \<le> n then at_index domainParts (n - 2) else None);
          tld = render (at_index domainParts (n - 1));
          host = render (str_or (Some (join_with CHR ''.'' (take (n - 2) domainParts)))
                           (Some ''@''))
      in case nc_makeRequest fetch creds ''namecheap.domains.dns.getHosts''
                [(''SLD'', sld), (''TLD'', tld)] z of
           (Inl e, z1) \<Rightarrow> (create_failed (message_or e ''Failed to create DNS record''), z1)
         | (Inr getHostsResponse, z1) \<Rightarrow>
             (let params = [(''SLD'', sld), (''TLD'', tld), (''HostName1'', host),
                            (''RecordType1'', rtype record), (''Address1'', content record),
                            (''TTL1'', show_nat (num_or (ttl record) 1800))] @
                           (case priority record of
                              None \<Rightarrow> []
                            | Some p \<Rightarrow> [(''MXPref1'', show_nat p)])
              in case nc_makeRequest fetch creds ''namecheap.domains.dns.setHosts'' params z1 of
                   (Inl e, z2) \<Rightarrow>
                     (create_failed (message_or e ''Failed to create DNS record''), z2)
                 | (Inr setHostsResponse, z2) \<Rightarrow>
                     (created (host @ '':'' @ rtype record), z2)))"

text \<open>The other four operations return a fixed failure and make no request.\<close>

definition nc_deleteRecord :: "NamecheapCredentials \<Rightarrow> string \<Rightarrow> op_result" where
  "nc_deleteRecord creds rid =
     fail_result (''Namecheap DNS deletion requires getting all records and re-setting '' @
                  ''without the target. This is a complex operation - please implement '' @
                  ''based on your specific needs.'')"

definition nc_updateRecord ::
  "NamecheapCredentials \<Rightarrow> string \<Rightarrow> PartialDNSRecord \<Rightarrow> op_result" where
  "nc_updateRecord creds rid record =
     fail_result (''Namecheap DNS updates require getting all records and re-setting '' @
                  ''with modifications. This is a complex operation - please implement '' @
                  ''based on your specific needs.'')"

definition nc_listRecords :: "NamecheapCredentials \<Rightarrow> string option \<Rightarrow> 'r list_result" where
  "nc_listRecords creds kind =
     list_failed ''Namecheap listing requires domain name. Please pass domain information.''"


text \<open>
  A Namecheap service for the example: its state is the list of queries it has
  received; it answers \<open>getHosts\<close> with the given text and any other command with an
  empty success response. \<open>dq\<close> puts a text between double quotes.
\<close>

definition dq :: "string \<Rightarrow> string" where
  "dq s = [CHR 0x22] @ s @ [CHR 0x22]"

definition recording_service :: "string \<Rightarrow> query list nc_fetch" where
  "recording_service hosts q z =
     (Inr (if map_of q ''Command'' = Some ''namecheap.domains.dns.getHosts'' then hosts
           else ''<ApiResponse Status='' @ dq ''OK'' @ '' />''), z @ [q])"

definition existing_hosts :: string where
  "existing_hosts =
     ''<ApiResponse Status='' @ dq ''OK'' @ ''><DomainDNSGetHostsResult>'' @
     ''<host Name='' @ dq ''www'' @ '' Type='' @ dq ''A'' @
       '' Address='' @ dq ''192.0.2.9'' @ '' TTL='' @ dq ''1800'' @ '' />'' @
     ''<host Name='' @ dq ''mail'' @ '' Type='' @ dq ''MX'' @
       '' Address='' @ dq ''mx.example.com'' @ '' TTL='' @ dq ''1800'' @ '' />'' @
     ''</DomainDNSGetHostsResult></ApiResponse>''"

definition nc_creds :: NamecheapCredentials where
  "nc_creds = \<lparr>apiKey = ''k'', apiUser = ''u'', username = ''u'', clientIp = ''203.0.113.5''\<rparr>"

definition blog_record :: DNSRecord where
  "blog_record = \<lparr>rtype = ''A'', name = ''blog.example.com'', content = ''192.0.2.1'',
                   ttl = Some 3600, priority = None\<rparr>"

section \<open>Persistence and the registrar seen from the route handlers\<close>

text \<open>
  The three Prisma tables are lists of rows, in the order of insertion. Enumerations are
  the strings the handlers compare and write. A database call is total on the tables:
  a failing database is not part of the model.
\<close>

record DomainListing =
  l_id :: string
  domainName :: string
  registrar :: string
  apiCredentialsEncrypted :: string
  allowedRecordTypes :: "string list"
  maxSubdomainsAllowed :: int
  isVerified :: bool
  l_status :: string
  pricePerSubdomain :: rat
  pricingPeriod :: string

record SubdomainRental =
  r_id :: nat
  listingId :: string
  renterUserId :: string
  subdomain :: string
  fullDomain :: string
  dnsRecordType :: string
  dnsRecordValue :: string
  rentalPeriodStart :: int
  rentalPeriodEnd :: int
  r_status :: string
  stripeSubscriptionId :: "string option"

record Transaction =
  t_id :: nat
  rentalId :: nat
  amount :: rat
  stripePaymentIntentId :: string
  t_status :: string

record database =
  domainListing :: "DomainListing list"
  subdomainRental :: "SubdomainRental list"
  transaction :: "Transaction list"

text \<open>The identifier a \<open>create\<close> gives the new row: above every identifier in use.\<close>

definition fresh_id :: "nat list \<Rightarrow> nat" where
  "fresh_id ids = Suc (fold max ids 0)"

text \<open>
  A record as \<open>listRecords\<close> returns it (\<open>any\<close> in the source). The handlers read
  \<open>record.name || record.Name\<close> and \<open>record.id || record.Id\<close>, so these four
  properties are kept, each possibly \<open>undefined\<close>.
\<close>

record raw_record =
  rec_name :: "string option"
  rec_Name :: "string option"
  rec_id :: "string option"
  rec_Id :: "string option"

text \<open>
  A registrar client, as the handlers use it: each operation acts on the registrar's
  state \<open>'z\<close> and either throws or returns its result.
\<close>

record 'z DNSProvider =
  createRecord :: "DNSRecord \<Rightarrow> 'z \<Rightarrow> (exn + create_result) \<times> 'z"
  deleteRecord :: "string \<Rightarrow> 'z \<Rightarrow> (exn + op_result) \<times> 'z"
  listRecords :: "string option \<Rightarrow> 'z \<Rightarrow> (exn + raw_record list_result) \<times> 'z"

datatype dns_call = CreateRecord DNSRecord | DeleteRecord string | ListRecords "string option"

text \<open>
  What a handler runs in: the database, the registrar's state, and the registrar
  operations invoked so far, oldest first.
\<close>

record 'z world =
  db :: database
  zone :: 'z
  calls :: "dns_call list"

text \<open>\<open>subscription.items.data\<close> is kept as the list of its prices' \<open>unit_amount\<close>.\<close>

record Subscription =
  sub_id :: string
  items_unit_amount :: "nat option list"
  current_period_start :: int
  current_period_end :: int

text \<open>
  What the handlers and the provider factory take from outside the repository: the
  cipher and the process key of the codec, \<open>JSON.parse\<close> (its values are of type
  \<open>'j\<close>), the three client classes as functions from the parsed credentials to a
  client, the Stripe client, and the clock.
\<close>

record ('z, 'j) env =
  cipher :: aead
  ENCRYPTION_KEY :: "string option"
  JSON_parse :: "string \<Rightarrow> exn + 'j"
  newCloudflare :: "'j \<Rightarrow> 'z DNSProvider"
  newRoute53 :: "'j \<Rightarrow> 'z DNSProvider"
  newNamecheap :: "'j \<Rightarrow> 'z DNSProvider"
  subscriptions_retrieve :: "string \<Rightarrow> exn + Subscription"
  now :: int

text \<open>
  \<open>createDNSProvider\<close> (dns/index.ts): decrypt the stored credentials, parse them,
  and build the client of the registrar \<open>reg\<close>. It throws when the payload does not
  decrypt, when the text is not JSON, and for an unknown registrar.
\<close>

definition createDNSProvider ::
  "('z, 'j) env \<Rightarrow> string \<Rightarrow> string \<Rightarrow> exn + 'z DNSProvider" where
  "createDNSProvider env reg encryptedCredentials =
     (case decrypt (cipher env) (ENCRYPTION_KEY env) encryptedCredentials of
        Inl e \<Rightarrow> Inl e
      | Inr plain \<Rightarrow>
          (case JSON_parse env plain of
             Inl e \<Rightarrow> Inl e
           | Inr credentials \<Rightarrow>
               if reg = ''CLOUDFLARE'' then Inr (newCloudflare env credentials)
               else if reg = ''ROUTE53'' then Inr (newRoute53 env credentials)
               else if reg = ''NAMECHEAP'' then Inr (newNamecheap env credentials)
               else Inl (Error (''Unsupported registrar: '' @ reg))))"

text \<open>
  \<open>records.find(callback)\<close> where the callback may throw: the first record for which
  it returns true; a throw on an earlier record ends the search.
\<close>

fun find_first :: "('a \<Rightarrow> exn + bool) \<Rightarrow> 'a list \<Rightarrow> exn + 'a option" where
  "find_first f [] = Inr None"
| "find_first f (x # xs) =
     (case f x of
        Inl e \<Rightarrow> Inl e
      | Inr True \<Rightarrow> Inr (Some x)
      | Inr False \<Rightarrow> find_first f xs)"

text \<open>\<open>record.name || record.Name\<close>\<close>

definition recordName :: "raw_record \<Rightarrow> string option" where
  "recordName record = str_or (rec_name record) (rec_Name record)"

text \<open>The \<open>TypeError\<close> of reading a property of \<open>undefined\<close>.\<close>

definition undefined_read :: "string \<Rightarrow> exn" where
  "undefined_read property =
     Error (''Cannot read properties of undefined (reading '' @ property @ '')'')"

section \<open>Availability check (check-availability/route.ts)\<close>

text \<open>\<open>/^[a-z0-9]([a-z0-9-]*[a-z0-9])?$/i\<close>\<close>

definition alnum :: "char \<Rightarrow> bool" where
  "alnum c =
     (let n = (of_char c :: nat)
      in (48 \<le> n \<and> n \<le> 57) \<or> (65 \<le> n \<and> n \<le> 90) \<or> (97 \<le> n \<and> n \<le> 122))"

definition subdomainRegex_test :: "string \<Rightarrow> bool" where
  "subdomainRegex_test s =
     (s \<noteq> [] \<and> alnum (hd s) \<and> alnum (last s) \<and>
      list_all (\<lambda>c. alnum c \<or> c = CHR ''-'') s)"

record AvailabilityRequest =
  b_listingId :: "string option"
  b_subdomain :: "string option"

text \<open>
  The JSON answers of the route: an error with status 400 or 404, or status 200 with
  \<open>available: false\<close> and a reason, or status 200 with \<open>available: true\<close>, the full
  domain, the price, the pricing period and the allowed record types.
\<close>

datatype availability =
  BadRequest string
| NotFound string
| NotAvailable string
| IsAvailable string rat string "string list"

text \<open>The callback of \<open>find\<close> in the conflict check.\<close>

definition conflicting :: "string \<Rightarrow> string \<Rightarrow> raw_record \<Rightarrow> exn + bool" where
  "conflicting sub domain record =
     (case recordName record of
        None \<Rightarrow> Inl (undefined_read ''startsWith'')
      | Some n \<Rightarrow>
          Inr (n = sub @ ''.'' @ domain \<or>
               n = sub @ ''.'' @ domain @ ''.'' \<or>
               startsWith n (sub @ ''.'')))"

text \<open>
  The block under \<open>if (listing.isVerified)\<close>: \<open>True\<close> when a conflicting record was
  found. Every throw inside is caught and the check goes on.
\<close>

definition dnsConflict ::
  "('z, 'j) env \<Rightarrow> DomainListing \<Rightarrow> string \<Rightarrow> 'z world \<Rightarrow> bool \<times> 'z world" where
  "dnsConflict env listing sub w =
     (case createDNSProvider env (registrar listing) (apiCredentialsEncrypted listing) of
        Inl e \<Rightarrow> (False, w)
      | Inr dnsProvider \<Rightarrow>
          (let (answer, z) = listRecords dnsProvider None (zone w);
               w1 = w\<lparr>zone := z, calls := calls w @ [ListRecords None]\<rparr>
           in case answer of
                Inl e \<Rightarrow> (False, w1)
              | Inr dnsResult \<Rightarrow>
                  (case (if success dnsResult then records dnsResult else None) of
                     None \<Rightarrow> (False, w1)
                   | Some rs \<Rightarrow>
                       (case find_first (conflicting sub (domainName listing)) rs of
                          Inl e \<Rightarrow> (False, w1)
                        | Inr None \<Rightarrow> (False, w1)
                        | Inr (Some conflictingRecord) \<Rightarrow> (True, w1)))))"

definition checkAvailability ::
  "('z, 'j) env \<Rightarrow> AvailabilityRequest \<Rightarrow> 'z world \<Rightarrow> availability \<times> 'z world" where
  "checkAvailability env body w =
     (case (str_or (b_listingId body) None, str_or (b_subdomain body) None) of
        (Some lid, Some sub) \<Rightarrow>
          if \<not> subdomainRegex_test sub
          then (NotAvailable
                  ''Invalid subdomain format. Use only alphanumeric characters and hyphens.'', w)
          else
            (case find (\<lambda>l. l_id l = lid) (domainListing (db w)) of
               None \<Rightarrow> (NotFound ''Listing not found'', w)
             | Some listing \<Rightarrow>
                 if l_status listing \<noteq> ''ACTIVE''
                 then (NotAvailable ''This domain listing is not currently active.'', w)
                 else if int (length (filter (\<lambda>r. listingId r = lid \<and> r_status r = ''ACTIVE'')
                                        (subdomainRental (db w))))
                         \<ge> maxSubdomainsAllowed listing
                 then (NotAvailable ''Maximum subdomains reached for this domain.'', w)
                 else if find (\<lambda>r. listingId r = lid \<and> subdomain r = sub \<and>
                                     r_status r = ''ACTIVE'') (subdomainRental (db w)) \<noteq> None
                 then (NotAvailable ''This subdomain is already taken.'', w)
                 else
                   (let (conflict, w1) =
                          (if isVerified listing then dnsConflict env listing sub w
                           else (False, w))
                    in if conflict
                       then (NotAvailable
                               (''A DNS record already exists for this subdomain. '' @
                                ''Please choose a different name.''), w1)
                       else (IsAvailable (sub @ ''.'' @ domainName listing)
                               (pricePerSubdomain listing) (pricingPeriod listing)
                               (allowedRecordTypes listing), w1)))
      | _ \<Rightarrow> (BadRequest ''Missing required fields: listingId and subdomain'', w))"

section \<open>Billing events (webhooks/stripe/route.ts)\<close>

record Metadata =
  m_listingId :: string
  m_renterUserId :: string
  m_subdomain :: string
  m_fullDomain :: string
  m_dnsRecordType :: string
  m_dnsRecordValue :: string

record CheckoutSession =
  metadata :: "Metadata option"
  subscription :: "string option"
  payment_intent :: "string option"

text \<open>
  The amount and the rental period: read from the subscription when the session has
  one (the retrieval may throw), else zero and the current time.
\<close>

definition billingPeriod ::
  "('z, 'j) env \<Rightarrow> CheckoutSession \<Rightarrow> exn + rat \<times> string option \<times> int \<times> int" where
  "billingPeriod env session =
     (case str_or (subscription session) None of
        None \<Rightarrow> Inr (0, None, now env, now env)
      | Some sid \<Rightarrow>
          (case subscriptions_retrieve env sid of
             Inl e \<Rightarrow> Inl e
           | Inr sub \<Rightarrow>
               Inr ((case at_index (items_unit_amount sub) 0 of
                       None \<Rightarrow> 0
                     | Some unit_amount \<Rightarrow> of_nat (num_or unit_amount 0) / 100),
                    Some (sub_id sub),
                    current_period_start sub * 1000,
                    current_period_end sub * 1000)))"

text \<open>
  The block \<open>Create DNS record\<close>: its own \<open>try\<close> catches every throw, and the
  result of \<open>createRecord\<close> is only logged (\<open>dnsRecordId\<close> is not stored).
\<close>

definition provisionRecord :: "('z, 'j) env \<Rightarrow> DomainListing \<Rightarrow> Metadata \<Rightarrow> 'z world \<Rightarrow> 'z world" where
  "provisionRecord env listing md w =
     (case createDNSProvider env (registrar listing) (apiCredentialsEncrypted listing) of
        Inl dnsError \<Rightarrow> w
      | Inr dnsProvider \<Rightarrow>
          (let record = \<lparr>rtype = m_dnsRecordType md, name = m_fullDomain md,
                         content = m_dnsRecordValue md, ttl = Some 3600, priority = None\<rparr>;
               (recordResult, z) = createRecord dnsProvider record (zone w)
           in w\<lparr>zone := z, calls := calls w @ [CreateRecord record]\<rparr>))"

definition createRental ::
  "Metadata \<Rightarrow> int \<Rightarrow> int \<Rightarrow> string option \<Rightarrow> database \<Rightarrow> SubdomainRental \<times> database" where
  "createRental md periodStart periodEnd subscriptionId d =
     (let rental = \<lparr>r_id = fresh_id (map r_id (subdomainRental d)),
                     listingId = m_listingId md, renterUserId = m_renterUserId md,
                     subdomain = m_subdomain md, fullDomain = m_fullDomain md,
                     dnsRecordType = m_dnsRecordType md, dnsRecordValue = m_dnsRecordValue md,
                     rentalPeriodStart = periodStart, rentalPeriodEnd = periodEnd,
                     r_status = ''ACTIVE'', stripeSubscriptionId = subscriptionId\<rparr>
      in (rental, d\<lparr>subdomainRental := subdomainRental d @ [rental]\<rparr>))"

definition createTransaction :: "nat \<Rightarrow> rat \<Rightarrow> string \<Rightarrow> database \<Rightarrow> database" where
  "createTransaction rid amt intent d =
     d\<lparr>transaction := transaction d @
          [\<lparr>t_id = fresh_id (map t_id (transaction d)), rentalId = rid, amount = amt,
            stripePaymentIntentId = intent, t_status = ''COMPLETED''\<rparr>]\<rparr>"

text \<open>
  \<open>handleCheckoutSessionCompleted\<close>. A throw (\<open>Inl\<close>) comes from the Stripe
  retrieval only, before anything is written, and is rethrown by the outer \<open>catch\<close>.
\<close>

definition handleCheckoutSessionCompleted ::
  "('z, 'j) env \<Rightarrow> CheckoutSession \<Rightarrow> 'z world \<Rightarrow> exn + 'z world" where
  "handleCheckoutSessionCompleted env session w =
     (case metadata session of
        None \<Rightarrow> Inr w
      | Some md \<Rightarrow>
          (case billingPeriod env session of
             Inl e \<Rightarrow> Inl e
           | Inr (amt, subscriptionId, periodStart, periodEnd) \<Rightarrow>
               (case find (\<lambda>l. l_id l = m_listingId md) (domainListing (db w)) of
                  None \<Rightarrow> Inr w
                | Some listing \<Rightarrow>
                    if \<not> isVerified listing then Inr w
                    else if m_dnsRecordType md \<notin> set (allowedRecordTypes listing) then Inr w
                    else
                      (let w1 = provisionRecord env listing md w;
                           (rental, d1) = createRental md periodStart periodEnd subscriptionId (db w1);
                           d2 = (case str_or (payment_intent session) None of
                                   None \<Rightarrow> d1
                                 | Some intent \<Rightarrow> createTransaction (r_id rental) amt intent d1)
                       in Inr (w1\<lparr>db := d2\<rparr>)))))"

text \<open>The callback of \<open>find\<close> in \<open>handleSubscriptionDeleted\<close>.\<close>

definition matchesRental :: "SubdomainRental \<Rightarrow> raw_record \<Rightarrow> exn + bool" where
  "matchesRental rental record =
     (case recordName record of
        None \<Rightarrow> Inl (undefined_read ''startsWith'')
      | Some n \<Rightarrow> Inr (n = fullDomain rental \<or> startsWith n (subdomain rental)))"

text \<open>
  The block \<open>Delete DNS record if listing is verified\<close>, inside its own \<open>try\<close>:
  the record is looked up by name among the listed records of the rental's kind and
  deleted by \<open>record.id || record.Id || fullDomain:kind\<close>. Nothing it does or throws
  is returned.
\<close>

definition releaseRecord :: "('z, 'j) env \<Rightarrow> DomainListing \<Rightarrow> SubdomainRental \<Rightarrow> 'z world \<Rightarrow> 'z world" where
  "releaseRecord env listing rental w =
     (case createDNSProvider env (registrar listing) (apiCredentialsEncrypted listing) of
        Inl dnsError \<Rightarrow> w
      | Inr dnsProvider \<Rightarrow>
          (let (answer, z) = listRecords dnsProvider (Some (dnsRecordType rental)) (zone w);
               w1 = w\<lparr>zone := z, calls := calls w @ [ListRecords (Some (dnsRecordType rental))]\<rparr>
           in case answer of
                Inl dnsError \<Rightarrow> w1
              | Inr listResult \<Rightarrow>
                  (case (if success listResult then records listResult else None) of
                     None \<Rightarrow> w1
                   | Some rs \<Rightarrow>
                       (case find_first (matchesRental rental) rs of
                          Inl dnsError \<Rightarrow> w1
                        | Inr None \<Rightarrow> w1
                        | Inr (Some recordToDelete) \<Rightarrow>
                            (let rid = render (str_or (rec_id recordToDelete)
                                          (str_or (rec_Id recordToDelete)
                                             (Some (fullDomain rental @ '':'' @
                                                    dnsRecordType rental))));
                                 (deleteResult, z2) = deleteRecord dnsProvider rid (zone w1)
                             in w1\<lparr>zone := z2, calls := calls w1 @ [DeleteRecord rid]\<rparr>)))))"

text \<open>\<open>prisma.subdomainRental.update({where: {id}, data: {status}})\<close>\<close>

definition updateRentalStatus :: "nat \<Rightarrow> string \<Rightarrow> database \<Rightarrow> database" where
  "updateRentalStatus rid st d =
     d\<lparr>subdomainRental :=
          map (\<lambda>r. if r_id r = rid then r\<lparr>r_status := st\<rparr> else r) (subdomainRental d)\<rparr>"

text \<open>
  \<open>handleSubscriptionDeleted\<close>, given the id of the deleted subscription. The rental
  is read with its listing (\<open>include: {listing: true}\<close>); a rental whose listing row
  is missing makes \<open>rental.listing.isVerified\<close> throw.
\<close>

definition handleSubscriptionDeleted :: "('z, 'j) env \<Rightarrow> string \<Rightarrow> 'z world \<Rightarrow> exn + 'z world" where
  "handleSubscriptionDeleted env subscriptionId w =
     (case find (\<lambda>r. stripeSubscriptionId r = Some subscriptionId) (subdomainRental (db w)) of
        None \<Rightarrow> Inr w
      | Some rental \<Rightarrow>
          (case find (\<lambda>l. l_id l = listingId rental) (domainListing (db w)) of
             None \<Rightarrow> Inl (undefined_read ''isVerified'')
           | Some listing \<Rightarrow>
               (let w1 = (if isVerified listing then releaseRecord env listing rental w else w)
                in Inr (w1\<lparr>db := updateRentalStatus (r_id rental) ''CANCELLED'' (db w1)\<rparr>))))"

section \<open>Example worlds\<close>

text \<open>
  The registrar of the examples keeps its zone as the list of its records. One client
  lists the zone and answers every mutation with a failure result; the other throws on
  every operation.
\<close>

definition refusing_provider :: "raw_record list DNSProvider" where
  "refusing_provider =
     \<lparr>createRecord = (\<lambda>record z. (Inr (create_failed ''registrar refused''), z)),
      deleteRecord = (\<lambda>rid z. (Inr (fail_result ''registrar refused''), z)),
      listRecords = (\<lambda>kind z. (Inr (listed z), z))\<rparr>"

definition throwing_provider :: "raw_record list DNSProvider" where
  "throwing_provider =
     \<lparr>createRecord = (\<lambda>record z. (Inl (Error ''fetch failed''), z)),
      deleteRecord = (\<lambda>rid z. (Inl (Error ''fetch failed''), z)),
      listRecords = (\<lambda>kind z. (Inl (Error ''fetch failed''), z))\<rparr>"

definition monthly_subscription :: "string \<Rightarrow> Subscription" where
  "monthly_subscription sid =
     \<lparr>sub_id = sid, items_unit_amount = [Some 500],
      current_period_start = 1700000000, current_period_end = 1702592000\<rparr>"

text \<open>
  An environment with the example cipher and key, in which every registrar is served by
  the given client; parsed credentials are kept as their text.
\<close>

definition env_with :: "raw_record list DNSProvider \<Rightarrow> (raw_record list, string) env" where
  "env_with p =
     \<lparr>cipher = toy_cipher, ENCRYPTION_KEY = Some example_key, JSON_parse = Inr,
      newCloudflare = (\<lambda>credentials. p), newRoute53 = (\<lambda>credentials. p),
      newNamecheap = (\<lambda>credentials. p),
      subscriptions_retrieve = (\<lambda>sid. Inr (monthly_subscription sid)),
      now = 1700000000000\<rparr>"

text \<open>The same environment in a process that has no \<open>ENCRYPTION_KEY\<close>.\<close>

definition env_without_key :: "raw_record list DNSProvider \<Rightarrow> (raw_record list, string) env" where
  "env_without_key p = (env_with p)\<lparr>ENCRYPTION_KEY := None\<rparr>"

definition example_listing :: "bool \<Rightarrow> DomainListing" where
  "example_listing verified =
     \<lparr>l_id = ''L1'', domainName = ''example.com'', registrar = ''CLOUDFLARE'',
      apiCredentialsEncrypted = example_payload, allowedRecordTypes = [''A''],
      maxSubdomainsAllowed = 5, isVerified = verified, l_status = ''ACTIVE'',
      pricePerSubdomain = 5, pricingPeriod = ''MONTHLY''\<rparr>"

definition blog_rental :: SubdomainRental where
  "blog_rental =
     \<lparr>r_id = 1, listingId = ''L1'', renterUserId = ''U2'', subdomain = ''blog'',
      fullDomain = ''blog.example.com'', dnsRecordType = ''A'', dnsRecordValue = ''192.0.2.1'',
      rentalPeriodStart = 1700000000000, rentalPeriodEnd = 1702592000000,
      r_status = ''ACTIVE'', stripeSubscriptionId = Some ''sub_1''\<rparr>"

definition blog_dns :: raw_record where
  "blog_dns = \<lparr>rec_name = Some ''blog.example.com'', rec_Name = None,
                rec_id = Some ''rec_1'', rec_Id = None\<rparr>"

text \<open>A world with the example listing, the given rentals and the given zone.\<close>

definition world_of ::
  "bool \<Rightarrow> SubdomainRental list \<Rightarrow> raw_record list \<Rightarrow> raw_record list world" where
  "world_of verified rentals z =
     \<lparr>db = \<lparr>domainListing = [example_listing verified], subdomainRental = rentals,
             transaction = []\<rparr>,
      zone = z, calls = []\<rparr>"

definition blog_metadata :: "string \<Rightarrow> Metadata" where
  "blog_metadata kind =
     \<lparr>m_listingId = ''L1'', m_renterUserId = ''U2'', m_subdomain = ''blog'',
      m_fullDomain = ''blog.example.com'', m_dnsRecordType = kind,
      m_dnsRecordValue = ''192.0.2.1''\<rparr>"

definition blog_session :: "string \<Rightarrow> string option \<Rightarrow> CheckoutSession" where
  "blog_session kind intent =
     \<lparr>metadata = Some (blog_metadata kind), subscription = Some ''sub_1'',
      payment_intent = intent\<rparr>"

definition blog_request :: AvailabilityRequest where
  "blog_request = \<lparr>b_listingId = Some ''L1'', b_subdomain = Some ''blog''\<rparr>"


section \<open>Properties of the string and table operations\<close>





lemma find_map_same:
  assumes "\<And>x. P (f x) = P x"
  shows "find P (map f xs) = map_option f (find P xs)"
  using assms by (induction xs) simp_all

section \<open>Credential codec: round trip and the unused salt\<close>
















section \<open>Token-REST client: ownership verification\<close>






section \<open>Query-API client: what createRecord sends\<close>

text \<open>
  The queries the client sends do not depend on the hosts the service reports: two
  answers to \<open>getHosts\<close>, neither an error, lead to the same two queries.
\<close>

lemma nc_createRecord_ignores_hosts:
  assumes "\<not> str_includes h status_error" and "\<not> str_includes h' status_error"
  shows "snd (nc_createRecord (recording_service h) creds record z) =
         snd (nc_createRecord (recording_service h') creds record z)"
  using assms
  by (simp add: nc_createRecord_def nc_makeRequest_def recording_service_def Let_def
      split: prod.splits sum.splits)

text \<open>
  C8. Evaluation of \<open>createRecord\<close> for \<open>blog.example.com\<close> on a domain that has
  the hosts \<open>www\<close> and \<open>mail\<close>: the client asks for the hosts and then sends
  \<open>setHosts\<close> with the new host alone. Nothing of the answer to \<open>getHosts\<close> is in
  the second query, and the client reports success.
\<close>

theorem namecheap_createRecord_sends_only_new_host:
  "nc_createRecord (recording_service existing_hosts) nc_creds blog_record [] =
     (created ''blog:A'',
      [[(''ApiUser'', ''u''), (''ApiKey'', ''k''), (''UserName'', ''u''),
        (''ClientIp'', ''203.0.113.5''), (''Command'', ''namecheap.domains.dns.getHosts''),
        (''SLD'', ''example''), (''TLD'', ''com'')],
       [(''ApiUser'', ''u''), (''ApiKey'', ''k''), (''UserName'', ''u''),
        (''ClientIp'', ''203.0.113.5''), (''Command'', ''namecheap.domains.dns.setHosts''),
        (''SLD'', ''example''), (''TLD'', ''com''), (''HostName1'', ''blog''),
        (''RecordType1'', ''A''), (''Address1'', ''192.0.2.1''), (''TTL1'', ''3600'')]])"
  by code_simp

section \<open>Signed-REST client: no operation succeeds\<close>

lemma r53_makeRequest_throws: "\<exists>m. r53_makeRequest creds action params = Inl (Error m)"
  by (simp add: r53_makeRequest_def)

lemma r53_deleteRecord_fails:
  "\<not> success (r53_deleteRecord creds rid) \<and> error (r53_deleteRecord creds rid) \<noteq> None"
  by (simp add: r53_deleteRecord_def r53_makeRequest_def fail_result_def)

text \<open>
  C9. Every operation of the Signed-REST client (createRecord, deleteRecord,
  updateRecord, listRecords, verifyOwnership) returns, for every credential and every
  argument, a result with \<open>success = false\<close> that carries an error message, because
  \<open>makeRequest\<close> throws unconditionally.
\<close>

theorem route53_never_succeeds:
  "\<not> success (r53_createRecord creds record) \<and> error (r53_createRecord creds record) \<noteq> None \<and>
   \<not> success (r53_deleteRecord creds rid) \<and> error (r53_deleteRecord creds rid) \<noteq> None \<and>
   \<not> success (r53_updateRecord creds rid partial) \<and> error (r53_updateRecord creds rid partial) \<noteq> None \<and>
   \<not> success (r53_listRecords creds kind) \<and> error (r53_listRecords creds kind) \<noteq> None \<and>
   \<not> success (r53_verifyOwnership creds token) \<and> error (r53_verifyOwnership creds token) \<noteq> None"
proof -
  have c: "\<not> success (r53_createRecord creds record) \<and> error (r53_createRecord creds record) \<noteq> None"
    by (simp add: r53_createRecord_def r53_makeRequest_def create_failed_def)
  have u: "\<not> success (r53_updateRecord creds rid partial) \<and>
           error (r53_updateRecord creds rid partial) \<noteq> None"
    using r53_deleteRecord_fails [of creds rid] by (simp add: r53_updateRecord_def Let_def)
  have l: "\<not> success (r53_listRecords creds kind) \<and> error (r53_listRecords creds kind) \<noteq> None"
    by (simp add: r53_listRecords_def r53_makeRequest_def list_failed_def)
  have v: "\<not> success (r53_verifyOwnership creds token) \<and>
           error (r53_verifyOwnership creds token) \<noteq> None"
    by (simp add: r53_verifyOwnership_def r53_listRecords_def r53_makeRequest_def
        list_failed_def fail_result_def)
  from c r53_deleteRecord_fails [of creds rid] u l v show ?thesis by blast
qed

section \<open>Billing events: what the handlers persist\<close>

text \<open>The two registrar blocks write to the registrar and the call log only.\<close>

lemma db_provisionRecord: "db (provisionRecord env listing md w) = db w"
  by (simp add: provisionRecord_def Let_def split: sum.splits prod.splits)

lemma db_releaseRecord: "db (releaseRecord env listing rental w) = db w"
  by (simp add: releaseRecord_def Let_def split: sum.splits prod.splits option.splits)

lemma subscription_deleted_result:
  assumes "find (\<lambda>r. stripeSubscriptionId r = Some sid) (subdomainRental (db w)) = Some rental"
      and "find (\<lambda>l. l_id l = listingId rental) (domainListing (db w)) = Some listing"
  shows "\<exists>w'. handleSubscriptionDeleted env sid w = Inr w' \<and>
              db w' = updateRentalStatus (r_id rental) ''CANCELLED'' (db w)"
  using assms by (simp add: handleSubscriptionDeleted_def Let_def db_releaseRecord)

lemma find_after_cancel:
  assumes "find (\<lambda>r. stripeSubscriptionId r = Some sid) (subdomainRental d) = Some rental"
  shows "find (\<lambda>r. stripeSubscriptionId r = Some sid)
           (subdomainRental (updateRentalStatus (r_id rental) ''CANCELLED'' d))
         = Some (rental\<lparr>r_status := ''CANCELLED''\<rparr>)"
proof -
  let ?f = "\<lambda>r. if r_id r = r_id rental then r\<lparr>r_status := ''CANCELLED''\<rparr> else r"
  have "find (\<lambda>r. stripeSubscriptionId r = Some sid) (map ?f (subdomainRental d))
          = map_option ?f (find (\<lambda>r. stripeSubscriptionId r = Some sid) (subdomainRental d))"
    by (rule find_map_same) simp
  with assms show ?thesis by (simp add: updateRentalStatus_def)
qed


text \<open>
  C1. When the listing a checkout session refers to is not verified, or the record kind
  of the session is not in the listing's allowed kinds, the handler returns with the
  world as it was (no registrar call, no rental row) or rethrows the failure of the
  Stripe retrieval, which comes before any write. Conversely, whenever the handler changes
  the world, the listing was verified and the kind allowed.
\<close>

theorem unverified_or_disallowed_is_rejected:
  "(metadata session = Some md \<and>
    find (\<lambda>l. l_id l = m_listingId md) (domainListing (db w)) = Some listing \<and>
    (\<not> isVerified listing \<or> m_dnsRecordType md \<notin> set (allowedRecordTypes listing))
    \<longrightarrow> handleCheckoutSessionCompleted env session w = Inr w \<or>
        (\<exists>e. handleCheckoutSessionCompleted env session w = Inl e)) \<and>
   (handleCheckoutSessionCompleted env session w = Inr w' \<and> w' \<noteq> w
    \<longrightarrow> (\<exists>md' listing'. metadata session = Some md' \<and>
           find (\<lambda>l. l_id l = m_listingId md') (domainListing (db w)) = Some listing' \<and>
           isVerified listing' \<and> m_dnsRecordType md' \<in> set (allowedRecordTypes listing')))"
proof -
  have a: "metadata session = Some md \<and>
    find (\<lambda>l. l_id l = m_listingId md) (domainListing (db w)) = Some listing \<and>
    (\<not> isVerified listing \<or> m_dnsRecordType md \<notin> set (allowedRecordTypes listing))
    \<longrightarrow> handleCheckoutSessionCompleted env session w = Inr w \<or>
        (\<exists>e. handleCheckoutSessionCompleted env session w = Inl e)"
    by (auto simp: handleCheckoutSessionCompleted_def split: sum.splits prod.splits)
  have b: "handleCheckoutSessionCompleted env session w = Inr w' \<and> w' \<noteq> w
    \<longrightarrow> (\<exists>md' listing'. metadata session = Some md' \<and>
           find (\<lambda>l. l_id l = m_listingId md') (domainListing (db w)) = Some listing' \<and>
           isVerified listing' \<and> m_dnsRecordType md' \<in> set (allowedRecordTypes listing'))"
    by (auto simp: handleCheckoutSessionCompleted_def
        split: sum.splits prod.splits option.splits if_splits)
  from a b show ?thesis by blast
qed

theorem unverified_or_disallowed_is_rejected_witness:
  "metadata (blog_session ''A'' (Some ''pi_1'')) = Some (blog_metadata ''A'') \<and>
   find (\<lambda>l. l_id l = m_listingId (blog_metadata ''A''))
     (domainListing (db (world_of False [] []))) = Some (example_listing False) \<and>
   \<not> isVerified (example_listing False) \<and>
   handleCheckoutSessionCompleted (env_with refusing_provider) (blog_session ''A'' (Some ''pi_1''))
     (world_of False [] []) = Inr (world_of False [] []) \<and>
   handleCheckoutSessionCompleted (env_with refusing_provider) (blog_session ''A'' (Some ''pi_1''))
     (world_of True [] []) \<noteq> Inr (world_of True [] []) \<and>
   (\<exists>md' listing'.
      metadata (blog_session ''A'' (Some ''pi_1'')) = Some md' \<and>
      find (\<lambda>l. l_id l = m_listingId md') (domainListing (db (world_of True [] [])))
        = Some listing' \<and>
      isVerified listing' \<and> m_dnsRecordType md' \<in> set (allowedRecordTypes listing'))"
proof -
  let ?run = "handleCheckoutSessionCompleted (env_with refusing_provider)
                (blog_session ''A'' (Some ''pi_1'')) (world_of True [] [])"
  have r1: "\<not> isl ?run" by code_simp
  have r2: "?run \<noteq> Inr (world_of True [] [])" by code_simp
  from r1 obtain w' where w': "?run = Inr w'" by (cases ?run) simp_all
  with r2 have "?run = Inr w' \<and> w' \<noteq> world_of True [] []" by simp
  from unverified_or_disallowed_is_rejected [THEN conjunct2, THEN mp, OF this]
  have changed: "\<exists>md' listing'.
      metadata (blog_session ''A'' (Some ''pi_1'')) = Some md' \<and>
      find (\<lambda>l. l_id l = m_listingId md') (domainListing (db (world_of True [] [])))
        = Some listing' \<and>
      isVerified listing' \<and> m_dnsRecordType md' \<in> set (allowedRecordTypes listing')" .
  have m: "metadata (blog_session ''A'' (Some ''pi_1'')) = Some (blog_metadata ''A'')"
    by (simp add: blog_session_def)
  have f: "find (\<lambda>l. l_id l = m_listingId (blog_metadata ''A''))
             (domainListing (db (world_of False [] []))) = Some (example_listing False)"
    by (simp add: blog_metadata_def world_of_def example_listing_def)
  have a: "\<not> isVerified (example_listing False)"
    by (simp add: example_listing_def)
  have t: "\<not> isl (handleCheckoutSessionCompleted (env_with refusing_provider)
             (blog_session ''A'' (Some ''pi_1'')) (world_of False [] []))"
    by code_simp
  from m f a have pre:
    "metadata (blog_session ''A'' (Some ''pi_1'')) = Some (blog_metadata ''A'') \<and>
     find (\<lambda>l. l_id l = m_listingId (blog_metadata ''A''))
       (domainListing (db (world_of False [] []))) = Some (example_listing False) \<and>
     (\<not> isVerified (example_listing False) \<or>
      m_dnsRecordType (blog_metadata ''A'') \<notin> set (allowedRecordTypes (example_listing False)))"
    by simp
  from unverified_or_disallowed_is_rejected
         [where w' = "world_of False [] []" and env = "env_with refusing_provider",
          THEN conjunct1, THEN mp, OF pre]
  have "handleCheckoutSessionCompleted (env_with refusing_provider)
          (blog_session ''A'' (Some ''pi_1'')) (world_of False [] []) = Inr (world_of False [] []) \<or>
        (\<exists>e. handleCheckoutSessionCompleted (env_with refusing_provider)
          (blog_session ''A'' (Some ''pi_1'')) (world_of False [] []) = Inl e)" .
  with t have "handleCheckoutSessionCompleted (env_with refusing_provider)
          (blog_session ''A'' (Some ''pi_1'')) (world_of False [] []) = Inr (world_of False [] [])"
    by auto
  with m f a r2 changed show ?thesis by blast
qed

text \<open>
  C4, as amended. For a session that reaches and passes the two checks, whatever the
  factory and \<open>createRecord\<close> do (return a record id, return a failure, throw), the
  handler returns normally, exactly one rental row is added, with status ACTIVE and the
  fields of the session, and a transaction row with status COMPLETED for that rental is
  added exactly when the session has a payment intent.
\<close>

theorem checkout_persists_whatever_dns_does:
  assumes "metadata session = Some md"
      and "billingPeriod env session = Inr (amt, subscriptionId, periodStart, periodEnd)"
      and "find (\<lambda>l. l_id l = m_listingId md) (domainListing (db w)) = Some listing"
      and "isVerified listing"
      and "m_dnsRecordType md \<in> set (allowedRecordTypes listing)"
  shows "\<exists>w' rental.
           handleCheckoutSessionCompleted env session w = Inr w' \<and>
           subdomainRental (db w') = subdomainRental (db w) @ [rental] \<and>
           r_status rental = ''ACTIVE'' \<and>
           listingId rental = m_listingId md \<and> subdomain rental = m_subdomain md \<and>
           fullDomain rental = m_fullDomain md \<and>
           stripeSubscriptionId rental = subscriptionId \<and>
           transaction (db w') = transaction (db w) @
             (case str_or (payment_intent session) None of
                None \<Rightarrow> []
              | Some intent \<Rightarrow>
                  [\<lparr>t_id = fresh_id (map t_id (transaction (db w))), rentalId = r_id rental,
                    amount = amt, stripePaymentIntentId = intent, t_status = ''COMPLETED''\<rparr>])"
  using assms
  by (simp add: handleCheckoutSessionCompleted_def Let_def createRental_def
      createTransaction_def db_provisionRecord split: option.splits)

theorem checkout_persists_whatever_dns_does_witness:
  "metadata (blog_session ''A'' (Some ''pi_1'')) = Some (blog_metadata ''A'') \<and>
   billingPeriod (env_with throwing_provider) (blog_session ''A'' (Some ''pi_1''))
     = Inr (5, Some ''sub_1'', 1700000000000, 1702592000000) \<and>
   isVerified (example_listing True) \<and>
   (\<exists>w' rental.
       handleCheckoutSessionCompleted (env_with throwing_provider)
         (blog_session ''A'' (Some ''pi_1'')) (world_of True [] []) = Inr w' \<and>
       subdomainRental (db w') = [rental] \<and> r_status rental = ''ACTIVE'' \<and>
       transaction (db w') =
         [\<lparr>t_id = 1, rentalId = r_id rental, amount = 5, stripePaymentIntentId = ''pi_1'',
           t_status = ''COMPLETED''\<rparr>])"
proof -
  have m: "metadata (blog_session ''A'' (Some ''pi_1'')) = Some (blog_metadata ''A'')"
    by (simp add: blog_session_def)
  have b: "billingPeriod (env_with throwing_provider) (blog_session ''A'' (Some ''pi_1''))
     = Inr (5, Some ''sub_1'', 1700000000000, 1702592000000)"
    by (simp add: billingPeriod_def blog_session_def env_with_def monthly_subscription_def
        at_index_def)
  have f: "find (\<lambda>l. l_id l = m_listingId (blog_metadata ''A''))
             (domainListing (db (world_of True [] []))) = Some (example_listing True)"
    by (simp add: blog_metadata_def world_of_def example_listing_def)
  have v: "isVerified (example_listing True)"
    by (simp add: example_listing_def)
  have k: "m_dnsRecordType (blog_metadata ''A'') \<in> set (allowedRecordTypes (example_listing True))"
    by (simp add: example_listing_def blog_metadata_def)
  have p: "str_or (payment_intent (blog_session ''A'' (Some ''pi_1''))) None = Some ''pi_1''"
    by (simp add: blog_session_def)
  have t: "transaction (db (world_of True [] [])) = []" "subdomainRental (db (world_of True [] [])) = []"
    by (simp_all add: world_of_def)
  from checkout_persists_whatever_dns_does [OF m b f v k]
  have "\<exists>w' rental.
       handleCheckoutSessionCompleted (env_with throwing_provider)
         (blog_session ''A'' (Some ''pi_1'')) (world_of True [] []) = Inr w' \<and>
       subdomainRental (db w') = [rental] \<and> r_status rental = ''ACTIVE'' \<and>
       transaction (db w') =
         [\<lparr>t_id = 1, rentalId = r_id rental, amount = 5, stripePaymentIntentId = ''pi_1'',
           t_status = ''COMPLETED''\<rparr>]"
    unfolding p t by (simp add: fresh_id_def) blast
  with m b v show ?thesis by blast
qed

text \<open>
  The claim as stated fails for a session without a payment intent: \<open>createRecord\<close>
  is refused, the rental row is created, and no transaction row is.
\<close>

theorem checkout_without_payment_intent_counterexample:
  "map_sum id (\<lambda>w'. (map r_status (subdomainRental (db w')), transaction (db w'), calls w'))
     (handleCheckoutSessionCompleted (env_with refusing_provider) (blog_session ''A'' None)
        (world_of True [] []))
   = Inr ([''ACTIVE''], [],
          [CreateRecord \<lparr>rtype = ''A'', name = ''blog.example.com'', content = ''192.0.2.1'',
                         ttl = Some 3600, priority = None\<rparr>])"
  by code_simp

text \<open>
  C3. When a rental has the subscription of the event (and its listing row exists), the
  handler returns normally and the rental has status CANCELLED afterwards, for every
  environment: whether the factory, \<open>listRecords\<close> and \<open>deleteRecord\<close> succeed,
  return a failure or throw.
\<close>

theorem subscription_deleted_always_cancels:
  assumes "find (\<lambda>r. stripeSubscriptionId r = Some sid) (subdomainRental (db w)) = Some rental"
      and "find (\<lambda>l. l_id l = listingId rental) (domainListing (db w)) = Some listing"
  shows "\<exists>w'. handleSubscriptionDeleted env sid w = Inr w' \<and>
           find (\<lambda>r. stripeSubscriptionId r = Some sid) (subdomainRental (db w'))
             = Some (rental\<lparr>r_status := ''CANCELLED''\<rparr>) \<and>
           (\<forall>r \<in> set (subdomainRental (db w')). r_id r = r_id rental \<longrightarrow> r_status r = ''CANCELLED'')"
proof -
  from subscription_deleted_result [OF assms] obtain w' where
    h: "handleSubscriptionDeleted env sid w = Inr w'" and
    d: "db w' = updateRentalStatus (r_id rental) ''CANCELLED'' (db w)" by blast
  have c1: "find (\<lambda>r. stripeSubscriptionId r = Some sid) (subdomainRental (db w'))
          = Some (rental\<lparr>r_status := ''CANCELLED''\<rparr>)"
    unfolding d using assms(1) by (rule find_after_cancel)
  have c2: "\<forall>r \<in> set (subdomainRental (db w')). r_id r = r_id rental \<longrightarrow> r_status r = ''CANCELLED''"
    unfolding d by (auto simp: updateRentalStatus_def)
  from h c1 c2 show ?thesis by blast
qed

theorem subscription_deleted_always_cancels_witness:
  "find (\<lambda>r. stripeSubscriptionId r = Some ''sub_1'')
     (subdomainRental (db (world_of True [blog_rental] [blog_dns]))) = Some blog_rental \<and>
   find (\<lambda>l. l_id l = listingId blog_rental)
     (domainListing (db (world_of True [blog_rental] [blog_dns]))) = Some (example_listing True) \<and>
   (\<exists>w'. handleSubscriptionDeleted (env_with throwing_provider) ''sub_1''
            (world_of True [blog_rental] [blog_dns]) = Inr w' \<and>
         find (\<lambda>r. stripeSubscriptionId r = Some ''sub_1'') (subdomainRental (db w'))
           = Some (blog_rental\<lparr>r_status := ''CANCELLED''\<rparr>) \<and>
         (\<forall>r \<in> set (subdomainRental (db w')). r_id r = r_id blog_rental \<longrightarrow>
            r_status r = ''CANCELLED''))"
proof -
  have r: "find (\<lambda>r. stripeSubscriptionId r = Some ''sub_1'')
     (subdomainRental (db (world_of True [blog_rental] [blog_dns]))) = Some blog_rental"
    by (simp add: world_of_def blog_rental_def)
  have l: "find (\<lambda>l. l_id l = listingId blog_rental)
     (domainListing (db (world_of True [blog_rental] [blog_dns]))) = Some (example_listing True)"
    by (simp add: world_of_def blog_rental_def example_listing_def)
  from r l subscription_deleted_always_cancels [OF r l, of "env_with throwing_provider"]
  show ?thesis by blast
qed




section \<open>Availability: the live DNS check\<close>

lemma find_first_conflict:
  assumes "\<forall>r \<in> set rs. recordName r \<noteq> None"
      and "\<exists>r \<in> set rs. \<exists>n. recordName r = Some n \<and>
             (n = sub @ ''.'' @ domain \<or> n = sub @ ''.'' @ domain @ ''.'' \<or>
              startsWith n (sub @ ''.''))"
  shows "\<exists>r. find_first (conflicting sub domain) rs = Inr (Some r)"
  using assms
proof (induction rs)
  case Nil
  then show ?case by simp
next
  case (Cons r rs)
  from Cons.prems(1) obtain n where n: "recordName r = Some n" by auto
  show ?case
  proof (cases "n = sub @ ''.'' @ domain \<or> n = sub @ ''.'' @ domain @ ''.'' \<or>
              startsWith n (sub @ ''.'')")
    case True
    with n have "conflicting sub domain r = Inr True" by (simp add: conflicting_def)
    then show ?thesis by simp
  next
    case False
    with n Cons.prems have "\<exists>r \<in> set rs. \<exists>n. recordName r = Some n \<and>
             (n = sub @ ''.'' @ domain \<or> n = sub @ ''.'' @ domain @ ''.'' \<or>
              startsWith n (sub @ ''.''))" by auto
    with Cons.IH Cons.prems(1) obtain r' where
      r': "find_first (conflicting sub domain) rs = Inr (Some r')" by auto
    from n False have "conflicting sub domain r = Inr False" by (simp add: conflicting_def)
    with r' show ?thesis by simp
  qed
qed

lemma checkAvailability_reaches_dns:
  assumes "b_listingId body = Some lid" and "lid \<noteq> []" and "b_subdomain body = Some sub"
      and "subdomainRegex_test sub"
      and "find (\<lambda>l. l_id l = lid) (domainListing (db w)) = Some listing"
      and "l_status listing = ''ACTIVE''"
      and "int (length (filter (\<lambda>r. listingId r = lid \<and> r_status r = ''ACTIVE'')
                           (subdomainRental (db w)))) < maxSubdomainsAllowed listing"
      and "find (\<lambda>r. listingId r = lid \<and> subdomain r = sub \<and> r_status r = ''ACTIVE'')
             (subdomainRental (db w)) = None"
  shows "checkAvailability env body w =
           (let (conflict, w1) = (if isVerified listing then dnsConflict env listing sub w
                                  else (False, w))
            in if conflict
               then (NotAvailable (''A DNS record already exists for this subdomain. '' @
                                   ''Please choose a different name.''), w1)
               else (IsAvailable (sub @ ''.'' @ domainName listing) (pricePerSubdomain listing)
                       (pricingPeriod listing) (allowedRecordTypes listing), w1))"
proof -
  from assms(4) have "sub \<noteq> []" by (simp add: subdomainRegex_test_def)
  with assms show ?thesis by (simp add: checkAvailability_def)
qed

text \<open>
  C7, as amended. For a request with a well-formed label on an active listing below its
  maximum and without an active rental of the label: an unverified listing is reported
  available without any registrar call; for a verified listing \<open>listRecords()\<close> is
  called once whenever the factory returns a client, and when the factory throws no call
  is made and the subdomain is reported available; a throw or a failure result of
  \<open>listRecords\<close> leaves the subdomain available; and when the call succeeds with
  records that all carry a name, a record named as the full domain, as the full domain
  with a trailing dot, or starting with the label and a dot, makes the answer
  unavailable.
\<close>

theorem availability_live_dns_check:
  assumes "b_listingId body = Some lid" and "lid \<noteq> []" and "b_subdomain body = Some sub"
      and "subdomainRegex_test sub"
      and "find (\<lambda>l. l_id l = lid) (domainListing (db w)) = Some listing"
      and "l_status listing = ''ACTIVE''"
      and "int (length (filter (\<lambda>r. listingId r = lid \<and> r_status r = ''ACTIVE'')
                           (subdomainRental (db w)))) < maxSubdomainsAllowed listing"
      and "find (\<lambda>r. listingId r = lid \<and> subdomain r = sub \<and> r_status r = ''ACTIVE'')
             (subdomainRental (db w)) = None"
  shows "(\<not> isVerified listing \<longrightarrow>
            checkAvailability env body w =
              (IsAvailable (sub @ ''.'' @ domainName listing) (pricePerSubdomain listing)
                 (pricingPeriod listing) (allowedRecordTypes listing), w)) \<and>
         (isVerified listing \<longrightarrow>
            (\<forall>e. createDNSProvider env (registrar listing) (apiCredentialsEncrypted listing) = Inl e
               \<longrightarrow> checkAvailability env body w =
                     (IsAvailable (sub @ ''.'' @ domainName listing) (pricePerSubdomain listing)
                        (pricingPeriod listing) (allowedRecordTypes listing), w)) \<and>
            (\<forall>p. createDNSProvider env (registrar listing) (apiCredentialsEncrypted listing) = Inr p
               \<longrightarrow> calls (snd (checkAvailability env body w)) = calls w @ [ListRecords None] \<and>
                   ((\<exists>e. fst (listRecords p None (zone w)) = Inl e) \<or>
                    (\<exists>r. fst (listRecords p None (zone w)) = Inr r \<and> \<not> success r)
                    \<longrightarrow> fst (checkAvailability env body w) =
                          IsAvailable (sub @ ''.'' @ domainName listing)
                            (pricePerSubdomain listing) (pricingPeriod listing)
                            (allowedRecordTypes listing)) \<and>
                   (\<forall>r rs. fst (listRecords p None (zone w)) = Inr r \<and> success r \<and>
                       records r = Some rs \<and>
                       (\<forall>x \<in> set rs. recordName x \<noteq> None) \<and>
                       (\<exists>x \<in> set rs. \<exists>n. recordName x = Some n \<and>
                          (n = sub @ ''.'' @ domainName listing \<or>
                           n = sub @ ''.'' @ domainName listing @ ''.'' \<or>
                           startsWith n (sub @ ''.'')))
                       \<longrightarrow> fst (checkAvailability env body w) =
                             NotAvailable (''A DNS record already exists for this subdomain. '' @
                                           ''Please choose a different name.''))))"
proof -
  note eq = checkAvailability_reaches_dns [OF assms, of env]
  have u: "\<not> isVerified listing \<longrightarrow>
            checkAvailability env body w =
              (IsAvailable (sub @ ''.'' @ domainName listing) (pricePerSubdomain listing)
                 (pricingPeriod listing) (allowedRecordTypes listing), w)"
    unfolding eq by simp
  have t: "checkAvailability env body w =
              (IsAvailable (sub @ ''.'' @ domainName listing) (pricePerSubdomain listing)
                 (pricingPeriod listing) (allowedRecordTypes listing), w)"
    if "isVerified listing"
       "createDNSProvider env (registrar listing) (apiCredentialsEncrypted listing) = Inl e" for e
    unfolding eq using that by (simp add: dnsConflict_def)
  have c: "calls (snd (checkAvailability env body w)) = calls w @ [ListRecords None]"
    if "isVerified listing"
       "createDNSProvider env (registrar listing) (apiCredentialsEncrypted listing) = Inr p" for p
    unfolding eq using that
    by (simp add: dnsConflict_def Let_def split: prod.splits sum.splits option.splits)
  have f: "fst (checkAvailability env body w) =
              IsAvailable (sub @ ''.'' @ domainName listing) (pricePerSubdomain listing)
                 (pricingPeriod listing) (allowedRecordTypes listing)"
    if "isVerified listing"
       "createDNSProvider env (registrar listing) (apiCredentialsEncrypted listing) = Inr p"
       "(\<exists>e. fst (listRecords p None (zone w)) = Inl e) \<or>
        (\<exists>r. fst (listRecords p None (zone w)) = Inr r \<and> \<not> success r)" for p
    unfolding eq using that
    by (auto simp: dnsConflict_def Let_def split: prod.splits sum.splits option.splits)
  have x: "fst (checkAvailability env body w) =
              NotAvailable (''A DNS record already exists for this subdomain. '' @
                            ''Please choose a different name.'')"
    if v: "isVerified listing"
       and p: "createDNSProvider env (registrar listing) (apiCredentialsEncrypted listing) = Inr p"
       and r: "fst (listRecords p None (zone w)) = Inr r" "success r" "records r = Some rs"
       and n: "\<forall>x \<in> set rs. recordName x \<noteq> None"
       and k: "\<exists>x \<in> set rs. \<exists>n. recordName x = Some n \<and>
                          (n = sub @ ''.'' @ domainName listing \<or>
                           n = sub @ ''.'' @ domainName listing @ ''.'' \<or>
                           startsWith n (sub @ ''.''))" for p r rs
  proof -
    from find_first_conflict [OF n k] obtain y where
      y: "find_first (conflicting sub (domainName listing)) rs = Inr (Some y)" by blast
    obtain z where z: "listRecords p None (zone w) = (Inr r, z)"
      using r(1) by (cases "listRecords p None (zone w)") simp
    show ?thesis unfolding eq using v p r(2,3) y z
      by (simp add: dnsConflict_def Let_def)
  qed
  from u t c f x show ?thesis by blast
qed

text \<open>
  The claim as stated fails for a verified listing whose client cannot be built, here
  because the process has no key to decrypt the credentials with: no \<open>listRecords\<close>
  call is made, although the listing is verified.
\<close>

theorem availability_no_client_counterexample:
  "isVerified (example_listing True) \<and>
   checkAvailability (env_without_key refusing_provider) blog_request (world_of True [] [blog_dns]) =
     (IsAvailable ''blog.example.com'' 5 ''MONTHLY'' [''A''], world_of True [] [blog_dns]) \<and>
   calls (world_of True [] [blog_dns]) = []"
  by code_simp

theorem availability_live_dns_check_witness:
  "subdomainRegex_test ''blog'' \<and> isVerified (example_listing True) \<and>
   createDNSProvider (env_with refusing_provider) (registrar (example_listing True))
     (apiCredentialsEncrypted (example_listing True)) = Inr refusing_provider \<and>
   calls (snd (checkAvailability (env_with refusing_provider) blog_request
                 (world_of True [] [blog_dns]))) = [ListRecords None] \<and>
   fst (checkAvailability (env_with refusing_provider) blog_request (world_of True [] [blog_dns]))
     = NotAvailable (''A DNS record already exists for this subdomain. '' @
                     ''Please choose a different name.'')"
proof -
  let ?w = "world_of True [] [blog_dns]"
  have a1: "b_listingId blog_request = Some ''L1''" and a2: "''L1'' \<noteq> []"
    and a3: "b_subdomain blog_request = Some ''blog''"
    by (simp_all add: blog_request_def)
  have a4: "subdomainRegex_test ''blog''"
    by (simp add: subdomainRegex_test_def alnum_def)
  have a5: "find (\<lambda>l. l_id l = ''L1'') (domainListing (db ?w)) = Some (example_listing True)"
    by (simp add: world_of_def example_listing_def)
  have a6: "l_status (example_listing True) = ''ACTIVE''"
    by (simp add: example_listing_def)
  have a7: "int (length (filter (\<lambda>r. listingId r = ''L1'' \<and> r_status r = ''ACTIVE'')
                           (subdomainRental (db ?w)))) < maxSubdomainsAllowed (example_listing True)"
    by (simp add: world_of_def example_listing_def)
  have a8: "find (\<lambda>r. listingId r = ''L1'' \<and> subdomain r = ''blog'' \<and> r_status r = ''ACTIVE'')
             (subdomainRental (db ?w)) = None"
    by (simp add: world_of_def)
  have v: "isVerified (example_listing True)"
    by (simp add: example_listing_def)
  have "decrypt toy_cipher (Some example_key) example_payload = Inr ''{}''"
    by code_simp
  then have p: "createDNSProvider (env_with refusing_provider) (registrar (example_listing True))
             (apiCredentialsEncrypted (example_listing True)) = Inr refusing_provider"
    by (simp add: createDNSProvider_def env_with_def example_listing_def)
  have l: "fst (listRecords refusing_provider None (zone ?w)) = Inr (listed [blog_dns]) \<and>
           success (listed [blog_dns] :: raw_record list_result) \<and>
           records (listed [blog_dns]) = Some [blog_dns] \<and>
           (\<forall>x \<in> set [blog_dns]. recordName x \<noteq> None) \<and>
           (\<exists>x \<in> set [blog_dns]. \<exists>n. recordName x = Some n \<and>
              (n = ''blog'' @ ''.'' @ domainName (example_listing True) \<or>
               n = ''blog'' @ ''.'' @ domainName (example_listing True) @ ''.'' \<or>
               startsWith n (''blog'' @ ''.'')))"
    by (simp add: refusing_provider_def world_of_def listed_def blog_dns_def recordName_def
        example_listing_def)
  have c0: "calls ?w = []" by (simp add: world_of_def)
  from availability_live_dns_check [OF a1 a2 a3 a4 a5 a6 a7 a8, of "env_with refusing_provider"] v p l
  have "calls (snd (checkAvailability (env_with refusing_provider) blog_request ?w))
          = calls ?w @ [ListRecords None] \<and>
        fst (checkAvailability (env_with refusing_provider) blog_request ?w)
          = NotAvailable (''A DNS record already exists for this subdomain. '' @
                          ''Please choose a different name.'')"
    by blast
  with a4 v p c0 show ?thesis by simp
qed

end
